theory Spec2Isabelle
  imports Complex_Main "HOL-Library.Sublist"
begin

section \<open>Values the server handles\<close>

text \<open>
  The server is one Python module, \<^verbatim>\<open>app.py\<close>, with three Flask routes. A parsed
  JSON document is a value of \<open>json\<close>; a JSON object is the list of the items of the Python
  dict it parses to (keys distinct, insertion order). A Python \<^verbatim>\<open>str\<close> is modelled by
  its UTF-8 encoding, a \<open>string\<close> of bytes. Comparison with an ASCII constant,
  \<^verbatim>\<open>startswith\<close> of an ASCII prefix and \<^verbatim>\<open>in\<close> with an ASCII needle give the same answer
  on the encoding as on the code points. A finite JSON number with a fraction or an exponent
  is the rational it denotes.
\<close>

datatype json =
    JNull
  | JBool bool
  | JInt int
  | JFloat rat
  | JStr string
  | JArr "json list"
  | JObj "(string \<times> json) list"

text \<open>Python's truth test, as \<^verbatim>\<open>not x\<close> and \<^verbatim>\<open>if x:\<close> apply it.\<close>

fun truthy :: "json \<Rightarrow> bool" where
  "truthy JNull = False"
| "truthy (JBool b) = b"
| "truthy (JInt i) = (i \<noteq> 0)"
| "truthy (JFloat r) = (r \<noteq> 0)"
| "truthy (JStr s) = (s \<noteq> [])"
| "truthy (JArr xs) = (xs \<noteq> [])"
| "truthy (JObj kvs) = (kvs \<noteq> [])"

text \<open>The name Python prints for the type of a parsed JSON value.\<close>

fun type_name :: "json \<Rightarrow> string" where
  "type_name JNull = ''NoneType''"
| "type_name (JBool b) = ''bool''"
| "type_name (JInt i) = ''int''"
| "type_name (JFloat r) = ''float''"
| "type_name (JStr s) = ''str''"
| "type_name (JArr xs) = ''list''"
| "type_name (JObj kvs) = ''dict''"

text \<open>
  \<^verbatim>\<open>str(e)\<close> of the \<^verbatim>\<open>AttributeError\<close> raised when a method that the value's type
  does not have is looked up on it.
\<close>

definition attribute_error :: "json \<Rightarrow> string \<Rightarrow> string" where
  "attribute_error v attr =
     [CHR 0x27] @ type_name v @ [CHR 0x27] @ '' object has no attribute '' @
     [CHR 0x27] @ attr @ [CHR 0x27]"

text \<open>\<^verbatim>\<open>d.get(k)\<close> on a dict: the value stored under the key, \<^verbatim>\<open>None\<close> when there is none.\<close>

definition dict_get :: "(string \<times> json) list \<Rightarrow> string \<Rightarrow> json" where
  "dict_get d k = (case map_of d k of None \<Rightarrow> JNull | Some v \<Rightarrow> v)"

subsection \<open>\<^verbatim>\<open>str.strip\<close> and \<^verbatim>\<open>str.lower\<close>\<close>

text \<open>
  \<^verbatim>\<open>str.strip()\<close> removes the code points Python counts as whitespace from both ends:
  U+0009 to U+000D, U+001C to U+0020, U+0085, U+00A0, U+1680, U+2000 to U+200A, U+2028, U+2029,
  U+202F, U+205F and U+3000. The table holds their UTF-8 encodings; none is a prefix of
  another.
\<close>

definition whitespace :: "string list" where
  "whitespace =
     [[CHR 0x09], [CHR 0x0A], [CHR 0x0B], [CHR 0x0C], [CHR 0x0D],
      [CHR 0x1C], [CHR 0x1D], [CHR 0x1E], [CHR 0x1F], [CHR 0x20],
      [CHR 0xC2, CHR 0x85], [CHR 0xC2, CHR 0xA0],
      [CHR 0xE1, CHR 0x9A, CHR 0x80],
      [CHR 0xE2, CHR 0x80, CHR 0x80], [CHR 0xE2, CHR 0x80, CHR 0x81],
      [CHR 0xE2, CHR 0x80, CHR 0x82], [CHR 0xE2, CHR 0x80, CHR 0x83],
      [CHR 0xE2, CHR 0x80, CHR 0x84], [CHR 0xE2, CHR 0x80, CHR 0x85],
      [CHR 0xE2, CHR 0x80, CHR 0x86], [CHR 0xE2, CHR 0x80, CHR 0x87],
      [CHR 0xE2, CHR 0x80, CHR 0x88], [CHR 0xE2, CHR 0x80, CHR 0x89],
      [CHR 0xE2, CHR 0x80, CHR 0x8A],
      [CHR 0xE2, CHR 0x80, CHR 0xA8], [CHR 0xE2, CHR 0x80, CHR 0xA9],
      [CHR 0xE2, CHR 0x80, CHR 0xAF],
      [CHR 0xE2, CHR 0x81, CHR 0x9F],
      [CHR 0xE3, CHR 0x80, CHR 0x80]]"

text \<open>The encoding of the whitespace code point a string starts with, if it starts with one.\<close>

definition leading_space :: "string \<Rightarrow> string option" where
  "leading_space s = find (\<lambda>w. prefix w s) whitespace"

function lstrip :: "string \<Rightarrow> string" where
  "lstrip s = (case leading_space s of None \<Rightarrow> s | Some w \<Rightarrow> lstrip (drop (length w) s))"
  by pat_completeness auto
termination
proof (relation "measure length")
  show "wf (measure length)"
    by simp
next
  fix s w
  assume "leading_space s = Some w"
  then have "w \<in> set whitespace" and p: "prefix w s"
    by (auto simp: leading_space_def find_Some_iff)
  then have "w \<noteq> []"
    by (auto simp: whitespace_def)
  with p have "length (drop (length w) s) < length s"
    by (cases w; cases s) auto
  then show "(drop (length w) s, s) \<in> measure length"
    by simp
qed

declare lstrip.simps [simp del]

text \<open>
  The right end: the string is cut at the first position from which only whitespace
  follows. A position inside a multi-byte encoding starts with a continuation byte, which
  \<open>leading_space\<close> never matches, so the cut falls on a code point boundary.
\<close>

fun rstrip :: "string \<Rightarrow> string" where
  "rstrip [] = []"
| "rstrip (c # s) = (if lstrip (c # s) = [] then [] else c # rstrip s)"

definition strip :: "string \<Rightarrow> string" where
  "strip s = rstrip (lstrip s)"

text \<open>
  \<^verbatim>\<open>str.lower()\<close> is used only as \<^verbatim>\<open>needle in s.lower()\<close> with the needles
  \<^verbatim>\<open>text\<close>, \<^verbatim>\<open>url\<close> and \<^verbatim>\<open>too long\<close>. The ASCII capitals are mapped to their small letters
  and every other byte is kept. Python also maps code points beyond ASCII, but the only ASCII
  letters it produces from them are \<^verbatim>\<open>i\<close> (from U+0130) and \<^verbatim>\<open>k\<close> (from U+212A), which occur in
  none of the three needles, so the membership tests agree.
\<close>

definition lower_char :: "char \<Rightarrow> char" where
  "lower_char c =
     (case map_of (zip ''ABCDEFGHIJKLMNOPQRSTUVWXYZ'' ''abcdefghijklmnopqrstuvwxyz'') c of
        None \<Rightarrow> c
      | Some d \<Rightarrow> d)"

definition lower :: "string \<Rightarrow> string" where
  "lower s = map lower_char s"

section \<open>Helper functions of the server\<close>

text \<open>
  Both helpers return a pair \<^verbatim>\<open>(value, error_message)\<close> of which exactly one component is
  \<^verbatim>\<open>None\<close>. \<open>Accepted v\<close> is \<^verbatim>\<open>(v, None)\<close>, \<open>Rejected m\<close> is \<^verbatim>\<open>(None, m)\<close>, and
  \<open>Raised m\<close> is an exception \<^verbatim>\<open>e\<close> leaving the helper, with \<^verbatim>\<open>str(e) = m\<close>.
  Every message a helper returns is a non-empty constant, so the caller's test
  \<^verbatim>\<open>if error_msg:\<close> holds exactly for \<open>Rejected\<close>.
\<close>

datatype 'a outcome = Accepted 'a | Rejected string | Raised string

text \<open>The request dict handed to the SDK: \<^verbatim>\<open>{"url": url}\<close> or \<^verbatim>\<open>{"text": text}\<close>.\<close>

datatype analysis_request = UrlRequest string | TextRequest string

definition validate_text_input :: "json \<Rightarrow> analysis_request outcome" where
  "validate_text_input body =
     (case body of
        JObj d \<Rightarrow>
          (let text = dict_get d ''text'';
               url = dict_get d ''url''
           in if \<not> truthy text \<and> \<not> truthy url then
                Rejected ''Request must contain either 'text' or 'url' field''
              else if truthy text \<and> truthy url then
                Rejected ''Request must contain either 'text' or 'url', not both''
              else if truthy url then
                (case url of
                   JStr u \<Rightarrow>
                     if \<not> (prefix ''http://'' u \<or> prefix ''https://'' u)
                     then Rejected ''Invalid URL format''
                     else Accepted (UrlRequest u)
                 | _ \<Rightarrow> Raised (attribute_error url ''startswith''))
              else
                (case text of
                   JStr t \<Rightarrow>
                     if strip t = []
                     then Rejected ''Text content cannot be empty''
                     else Accepted (TextRequest t)
                 | _ \<Rightarrow> Raised (attribute_error text ''strip'')))
      | _ \<Rightarrow> Raised (attribute_error body ''get''))"

text \<open>
  The query string, \<^verbatim>\<open>request.args\<close>: a multi-dict whose \<^verbatim>\<open>get\<close> returns the first
  value given for a key, which is what \<open>map_of\<close> does on the list of pairs.
\<close>

type_synonym query_params = "(string \<times> string) list"

text \<open>The keyword arguments for the SDK: a dict from option name to \<^verbatim>\<open>True\<close> or a string.\<close>

datatype option_value = OBool bool | OStr string

type_synonym options = "(string \<times> option_value) list"

text \<open>\<^verbatim>\<open>d[k] = v\<close>: the value under an existing key is replaced, a new key goes last.\<close>

definition dict_set :: "('k \<times> 'v) list \<Rightarrow> 'k \<Rightarrow> 'v \<Rightarrow> ('k \<times> 'v) list" where
  "dict_set d k v =
     (if k \<in> set (map fst d)
      then map (\<lambda>(k', v'). if k' = k then (k', v) else (k', v')) d
      else d @ [(k, v)])"

definition boolean_feature :: "query_params \<Rightarrow> string \<Rightarrow> options \<Rightarrow> options" where
  "boolean_feature query_params name opts =
     (if map_of query_params name = Some ''true'' then dict_set opts name (OBool True) else opts)"

text \<open>
  The second half of \<^verbatim>\<open>build_deepgram_options\<close>: the three boolean features, then
  \<^verbatim>\<open>return options, None\<close>.
\<close>

definition boolean_features :: "query_params \<Rightarrow> options \<Rightarrow> options outcome" where
  "boolean_features query_params opts =
     Accepted
       (boolean_feature query_params ''intents''
         (boolean_feature query_params ''sentiment''
           (boolean_feature query_params ''topics'' opts)))"

definition build_deepgram_options :: "query_params \<Rightarrow> options outcome" where
  "build_deepgram_options query_params =
     (let opts = [(''language'',
                   OStr (case map_of query_params ''language'' of None \<Rightarrow> ''en'' | Some l \<Rightarrow> l))];
          summarize = map_of query_params ''summarize''
      in if summarize = Some ''true'' then
           boolean_features query_params (dict_set opts ''summarize'' (OBool True))
         else if summarize = Some ''v2'' then
           boolean_features query_params (dict_set opts ''summarize'' (OStr ''v2''))
         else if summarize = Some ''v1'' then
           Rejected ''Summarization v1 is no longer supported. Please use v2 or true.''
         else boolean_features query_params opts)"

definition format_error_response :: "string \<Rightarrow> string \<Rightarrow> string \<Rightarrow> json" where
  "format_error_response error_type code message =
     JObj [(''error'',
            JObj [(''type'', JStr error_type),
                  (''code'', JStr code),
                  (''message'', JStr message),
                  (''details'', JObj [])])]"

section \<open>The routes\<close>

text \<open>What a route returns: \<^verbatim>\<open>jsonify(payload), status_code\<close>.\<close>

record http_response =
  payload :: json
  status_code :: nat

text \<open>
  What \<^verbatim>\<open>analyze\<close> reads of the Flask request: \<^verbatim>\<open>request.is_json\<close> (the content type
  announces JSON), the outcome of \<^verbatim>\<open>request.get_json()\<close> (\<open>Inl m\<close> when it raises an
  exception whose \<^verbatim>\<open>str\<close> is \<open>m\<close>, \<open>Inr v\<close> when it returns the parsed body) and
  \<^verbatim>\<open>request.args\<close>.
\<close>

record request =
  is_json :: bool
  get_json :: "string + json"
  args :: query_params

text \<open>
  The Deepgram SDK is not part of the repository. It is a parameter: the remote call
  \<^verbatim>\<open>deepgram.read.v1.text.analyze(request=..., **options)\<close>, which raises (\<open>Inl\<close> of the
  exception's \<^verbatim>\<open>str\<close>) or returns a response object, and the probes \<^verbatim>\<open>analyze\<close> makes of
  that object and of its \<^verbatim>\<open>results\<close> attribute, each of which may raise as well.
\<close>

record ('resp, 'res) sdk =
  text_analyze :: "analysis_request \<Rightarrow> options \<Rightarrow> string + 'resp"
  resp_has_to_dict :: "'resp \<Rightarrow> bool"
  resp_has_model_dump :: "'resp \<Rightarrow> bool"
  resp_has_results :: "'resp \<Rightarrow> bool"
  resp_results :: "'resp \<Rightarrow> string + 'res"
  resp_model_dump :: "'resp \<Rightarrow> string + (string \<times> json) list"
  res_has_to_dict :: "'res \<Rightarrow> bool"
  res_to_dict :: "'res \<Rightarrow> string + json"
  res_dict :: "'res \<Rightarrow> string + json"

text \<open>The three ways \<^verbatim>\<open>analyze\<close> turns the SDK's response into \<^verbatim>\<open>{"results": ...}\<close>.\<close>

definition format_result :: "('resp, 'res) sdk \<Rightarrow> 'resp \<Rightarrow> string + json" where
  "format_result s response_data =
     (if resp_has_to_dict s response_data then
        (case resp_results s response_data of
           Inl e \<Rightarrow> Inl e
         | Inr res \<Rightarrow>
             if res_has_to_dict s res then
               (case res_to_dict s res of
                  Inl e \<Rightarrow> Inl e
                | Inr j \<Rightarrow> Inr (JObj [(''results'', j)]))
             else Inr (JObj [(''results'', JObj [])]))
      else if resp_has_model_dump s response_data then
        (case resp_model_dump s response_data of
           Inl e \<Rightarrow> Inl e
         | Inr result_data \<Rightarrow>
             Inr (JObj [(''results'',
                         case map_of result_data ''results'' of None \<Rightarrow> JObj [] | Some v \<Rightarrow> v)]))
      else if resp_has_results s response_data then
        (case resp_results s response_data of
           Inl e \<Rightarrow> Inl e
         | Inr res \<Rightarrow>
             (case res_dict s res of
                Inl e \<Rightarrow> Inl e
              | Inr j \<Rightarrow> Inr (JObj [(''results'', j)])))
      else Inr (JObj [(''results'', JObj [])]))"

text \<open>
  The \<^verbatim>\<open>except Exception as e\<close> block of \<^verbatim>\<open>analyze\<close>, applied to \<^verbatim>\<open>str(e)\<close>. What it
  prints is not modelled.
\<close>

definition analyze_except :: "string \<Rightarrow> http_response" where
  "analyze_except e =
     (let error_message = e;
          (error_code, status) =
            (if sublist ''text'' (lower e) then (''INVALID_TEXT'', 400)
             else if sublist ''url'' (lower e) then (''INVALID_URL'', 400)
             else if sublist ''too long'' (lower e) then (''TEXT_TOO_LONG'', 400)
             else (''INVALID_TEXT'', 500))
      in \<lparr>payload = format_error_response ''processing_error'' error_code
                      (if status = 400 then error_message else ''Text processing failed''),
          status_code = status\<rparr>)"

text \<open>
  \<^verbatim>\<open>POST /text-intelligence/analyze\<close>. The second component of the result is the list of
  calls made to the remote service while the request was handled, each with the request
  dict and the options it was given.
\<close>

type_synonym remote_call = "analysis_request \<times> options"

definition analyze :: "('resp, 'res) sdk \<Rightarrow> request \<Rightarrow> http_response \<times> remote_call list" where
  "analyze s req =
     (if \<not> is_json req then
        (\<lparr>payload = format_error_response ''validation_error'' ''INVALID_TEXT''
                      ''Request body must be JSON'',
          status_code = 400\<rparr>, [])
      else
        (case get_json req of
           Inl e \<Rightarrow> (analyze_except e, [])
         | Inr body \<Rightarrow>
             (case validate_text_input body of
                Raised e \<Rightarrow> (analyze_except e, [])
              | Rejected error_msg \<Rightarrow>
                  (\<lparr>payload = format_error_response ''validation_error''
                                (if sublist ''text'' (lower error_msg)
                                 then ''INVALID_TEXT'' else ''INVALID_URL'')
                                error_msg,
                    status_code = 400\<rparr>, [])
              | Accepted request_dict \<Rightarrow>
                  (case build_deepgram_options (args req) of
                     Raised e \<Rightarrow> (analyze_except e, [])
                   | Rejected error_msg \<Rightarrow>
                       (\<lparr>payload = format_error_response ''validation_error'' ''INVALID_TEXT''
                                     error_msg,
                         status_code = 400\<rparr>, [])
                   | Accepted opts \<Rightarrow>
                       (case text_analyze s request_dict opts of
                          Inl e \<Rightarrow> (analyze_except e, [(request_dict, opts)])
                        | Inr response_data \<Rightarrow>
                            (case format_result s response_data of
                               Inl e \<Rightarrow> (analyze_except e, [(request_dict, opts)])
                             | Inr result \<Rightarrow>
                                 (\<lparr>payload = result, status_code = 200\<rparr>,
                                  [(request_dict, opts)])))))))"

text \<open>\<^verbatim>\<open>GET /health\<close>. The handler reads nothing; \<open>w\<close> stands for whatever state there is.\<close>

definition health :: "'w \<Rightarrow> http_response" where
  "health w =
     \<lparr>payload = JObj [(''status'', JStr ''ok''), (''service'', JStr ''text-intelligence'')],
      status_code = 200\<rparr>"

text \<open>
  \<^verbatim>\<open>GET /api/metadata\<close> opens and parses \<^verbatim>\<open>deepgram.toml\<close>. The file system and the TOML
  parser are outside the repository; what they give the handler is one of: the file is not
  there (\<^verbatim>\<open>FileNotFoundError\<close>), opening or parsing raises another exception, or parsing
  returns the top-level table. TOML values are taken as the JSON values \<^verbatim>\<open>jsonify\<close>
  writes for them.
\<close>

datatype config_file =
    FileNotFound
  | LoadFailed string
  | Loaded "(string \<times> json) list"

definition metadata_error :: "string \<Rightarrow> http_response" where
  "metadata_error message =
     \<lparr>payload = JObj [(''error'', JStr ''INTERNAL_SERVER_ERROR''), (''message'', JStr message)],
      status_code = 500\<rparr>"

definition get_metadata :: "config_file \<Rightarrow> http_response" where
  "get_metadata file =
     (case file of
        Loaded config \<Rightarrow>
          (case map_of config ''meta'' of
             None \<Rightarrow> metadata_error ''Missing [meta] section in deepgram.toml''
           | Some meta \<Rightarrow> \<lparr>payload = meta, status_code = 200\<rparr>)
      | FileNotFound \<Rightarrow> metadata_error ''deepgram.toml file not found''
      | LoadFailed e \<Rightarrow>
          metadata_error (''Failed to read metadata from deepgram.toml: '' @ e))"

section \<open>Reading a response, and the conditions of validation\<close>

text \<open>The value under a key of a JSON object; nothing for a value that is no object.\<close>

definition json_field :: "json \<Rightarrow> string \<Rightarrow> json option" where
  "json_field j k = (case j of JObj d \<Rightarrow> map_of d k | _ \<Rightarrow> None)"

text \<open>The value under a key of the object that an envelope holds under \<^verbatim>\<open>error\<close>.\<close>

definition error_part :: "json \<Rightarrow> string \<Rightarrow> json option" where
  "error_part j k = (case json_field j ''error'' of None \<Rightarrow> None | Some e \<Rightarrow> json_field e k)"

text \<open>
  When \<open>validate_text_input\<close> accepts, read off its branches: one of the two values is
  a string that passes its check, and the other one fails Python's truth test (it is absent,
  \<^verbatim>\<open>null\<close>, empty, zero or \<^verbatim>\<open>false\<close>).
\<close>

fun usable_text :: "json \<Rightarrow> bool" where
  "usable_text (JStr t) = (strip t \<noteq> [])"
| "usable_text v = False"

fun usable_url :: "json \<Rightarrow> bool" where
  "usable_url (JStr u) = (prefix ''http://'' u \<or> prefix ''https://'' u)"
| "usable_url v = False"

definition accepts :: "json \<Rightarrow> json \<Rightarrow> bool" where
  "accepts text url =
     ((usable_text text \<and> \<not> truthy url) \<or> (usable_url url \<and> \<not> truthy text))"

text \<open>The request that is accepted, with the string it carries.\<close>

fun accepted_as :: "json \<Rightarrow> json \<Rightarrow> analysis_request \<Rightarrow> bool" where
  "accepted_as text url (TextRequest t) = (text = JStr t \<and> strip t \<noteq> [] \<and> \<not> truthy url)"
| "accepted_as text url (UrlRequest u) =
     (url = JStr u \<and> (prefix ''http://'' u \<or> prefix ''https://'' u) \<and> \<not> truthy text)"

text \<open>
  Exactly one of the two values passes the truth test and it is not a string (a number,
  \<^verbatim>\<open>true\<close>, a list or an object): there the validator calls a string method on it.
\<close>

fun is_str :: "json \<Rightarrow> bool" where
  "is_str (JStr s) = True"
| "is_str v = False"

definition lone_non_string :: "json \<Rightarrow> json \<Rightarrow> bool" where
  "lone_non_string text url =
     ((truthy text \<and> \<not> truthy url \<and> \<not> is_str text) \<or>
      (truthy url \<and> \<not> truthy text \<and> \<not> is_str url))"


text \<open>
  The condition in the words of the specification, where a field is present when the body
  has its key: exactly one of the two keys is present, a present \<^verbatim>\<open>text\<close> is not blank and
  a present \<^verbatim>\<open>url\<close> has an accepted scheme.
\<close>

definition spec_valid_body :: "(string \<times> json) list \<Rightarrow> bool" where
  "spec_valid_body d =
     (((map_of d ''text'' = None) \<noteq> (map_of d ''url'' = None)) \<and>
      (case map_of d ''text'' of None \<Rightarrow> True | Some v \<Rightarrow> usable_text v) \<and>
      (case map_of d ''url'' of None \<Rightarrow> True | Some v \<Rightarrow> usable_url v))"

section \<open>Sample requests and remote services\<close>

text \<open>A request whose content type announces JSON and whose body parses to \<open>b\<close>.\<close>

definition json_request :: "json \<Rightarrow> query_params \<Rightarrow> request" where
  "json_request b q = \<lparr>is_json = True, get_json = Inr b, args = q\<rparr>"

text \<open>A remote service whose call always raises a fault with the message \<open>m\<close>.\<close>

definition failing_sdk :: "string \<Rightarrow> (unit, unit) sdk" where
  "failing_sdk m =
     \<lparr>text_analyze = (\<lambda>r opts. Inl m),
      resp_has_to_dict = (\<lambda>r. False),
      resp_has_model_dump = (\<lambda>r. False),
      resp_has_results = (\<lambda>r. False),
      resp_results = (\<lambda>r. Inl ''no results''),
      resp_model_dump = (\<lambda>r. Inl ''no model_dump''),
      res_has_to_dict = (\<lambda>r. False),
      res_to_dict = (\<lambda>r. Inl ''no to_dict''),
      res_dict = (\<lambda>r. Inl ''not a mapping'')\<rparr>"

text \<open>
  A remote service that answers every call with a response object that has \<^verbatim>\<open>to_dict\<close>,
  as has its \<^verbatim>\<open>results\<close>, which converts to \<open>j\<close>.
\<close>

definition answering_sdk :: "json \<Rightarrow> (unit, unit) sdk" where
  "answering_sdk j =
     \<lparr>text_analyze = (\<lambda>r opts. Inr ()),
      resp_has_to_dict = (\<lambda>r. True),
      resp_has_model_dump = (\<lambda>r. True),
      resp_has_results = (\<lambda>r. True),
      resp_results = (\<lambda>r. Inr ()),
      resp_model_dump = (\<lambda>r. Inr [(''results'', j)]),
      res_has_to_dict = (\<lambda>r. True),
      res_to_dict = (\<lambda>r. Inr j),
      res_dict = (\<lambda>r. Inr j)\<rparr>"

section \<open>Strings\<close>

lemma strip_Nil [simp]: "strip [] = []"
  by (simp add: strip_def lstrip.simps leading_space_def whitespace_def)

lemma lower_too_long: "lower ''too long'' = ''too long''"
  by (simp add: lower_def lower_char_def)

lemma sublist_lower: "sublist n m \<Longrightarrow> sublist (lower n) (lower m)"
  unfolding lower_def by (rule map_mono_sublist)

lemma text_in_neither:
  "sublist ''text'' (lower ''Request must contain either 'text' or 'url' field'')"
  by (simp add: lower_def lower_char_def sublist_Cons_right)

lemma text_in_both:
  "sublist ''text'' (lower ''Request must contain either 'text' or 'url', not both'')"
  by (simp add: lower_def lower_char_def sublist_Cons_right)

lemma text_not_in_url: "\<not> sublist ''text'' (lower ''Invalid URL format'')"
  by (simp add: lower_def lower_char_def sublist_Cons_right)

lemma text_in_empty: "sublist ''text'' (lower ''Text content cannot be empty'')"
  by (simp add: lower_def lower_char_def sublist_Cons_right)

section \<open>Validation\<close>

lemma validate_accepted_iff:
  "validate_text_input (JObj d) = Accepted r \<longleftrightarrow>
     accepted_as (dict_get d ''text'') (dict_get d ''url'') r"
  by (cases "dict_get d ''text''"; cases "dict_get d ''url''"; cases r)
     (auto simp: validate_text_input_def Let_def)

lemma ex_request:
  "(\<exists>r. P r) \<longleftrightarrow> (\<exists>u. P (UrlRequest u)) \<or> (\<exists>t. P (TextRequest t))"
  by (metis analysis_request.exhaust)

lemma accepts_iff: "accepts v w \<longleftrightarrow> (\<exists>r. accepted_as v w r)"
  by (cases v; cases w) (auto simp: accepts_def ex_request)

lemma validate_rejected:
  assumes "\<not> accepts (dict_get d ''text'') (dict_get d ''url'')"
    and "\<not> lone_non_string (dict_get d ''text'') (dict_get d ''url'')"
  shows "validate_text_input (JObj d) =
     Rejected
       (if \<not> truthy (dict_get d ''text'') \<and> \<not> truthy (dict_get d ''url'')
        then ''Request must contain either 'text' or 'url' field''
        else if truthy (dict_get d ''text'') \<and> truthy (dict_get d ''url'')
        then ''Request must contain either 'text' or 'url', not both''
        else if truthy (dict_get d ''url'') then ''Invalid URL format''
        else ''Text content cannot be empty'')"
  using assms
  by (cases "dict_get d ''text''"; cases "dict_get d ''url''")
     (auto simp: validate_text_input_def accepts_def lone_non_string_def Let_def)

text \<open>
  C1, as amended. Validation succeeds exactly when one of \<^verbatim>\<open>text\<close> and \<^verbatim>\<open>url\<close> is a string
  that passes its check (a text that is not blank after trimming, a url that starts with
  \<^verbatim>\<open>http://\<close> or \<^verbatim>\<open>https://\<close>) while the other one fails Python's truth test: it is
  absent, \<^verbatim>\<open>null\<close>, \<^verbatim>\<open>false\<close>, zero or empty. The request produced carries that string. In
  every other case, except the one where the only value passing the truth test is not a
  string, the endpoint answers 400 with a \<^verbatim>\<open>validation_error\<close> envelope and calls nothing;
  the code is \<^verbatim>\<open>INVALID_URL\<close> when only \<^verbatim>\<open>url\<close> passes the truth test and \<^verbatim>\<open>INVALID_TEXT\<close>
  when neither does, when both do, and when the text is blank.
\<close>

theorem validate_text_input_one_truthy_field:
  "(validate_text_input (JObj d) = Accepted r \<longleftrightarrow>
      accepted_as (dict_get d ''text'') (dict_get d ''url'') r) \<and>
   ((\<exists>r'. validate_text_input (JObj d) = Accepted r') \<longleftrightarrow>
      accepts (dict_get d ''text'') (dict_get d ''url'')) \<and>
   (\<not> accepts (dict_get d ''text'') (dict_get d ''url'') \<and>
    \<not> lone_non_string (dict_get d ''text'') (dict_get d ''url'') \<and>
    is_json req \<and> get_json req = Inr (JObj d) \<longrightarrow>
      analyze s req =
        (\<lparr>payload = format_error_response ''validation_error''
                      (if truthy (dict_get d ''url'') \<and> \<not> truthy (dict_get d ''text'')
                       then ''INVALID_URL'' else ''INVALID_TEXT'')
                      (if \<not> truthy (dict_get d ''text'') \<and> \<not> truthy (dict_get d ''url'')
                    then ''Request must contain either 'text' or 'url' field''
                    else if truthy (dict_get d ''text'') \<and> truthy (dict_get d ''url'')
                    then ''Request must contain either 'text' or 'url', not both''
                    else if truthy (dict_get d ''url'') then ''Invalid URL format''
                    else ''Text content cannot be empty''),
          status_code = 400\<rparr>, []))"
proof (intro conjI impI)
  show "validate_text_input (JObj d) = Accepted r \<longleftrightarrow>
      accepted_as (dict_get d ''text'') (dict_get d ''url'') r"
    by (rule validate_accepted_iff)
next
  show "(\<exists>r'. validate_text_input (JObj d) = Accepted r') \<longleftrightarrow>
      accepts (dict_get d ''text'') (dict_get d ''url'')"
    by (simp add: validate_accepted_iff accepts_iff)
next
  assume a: \<open>\<not> accepts (dict_get d ''text'') (dict_get d ''url'') \<and>
    \<not> lone_non_string (dict_get d ''text'') (dict_get d ''url'') \<and>
    is_json req \<and> get_json req = Inr (JObj d)\<close>
  then have v: \<open>validate_text_input (JObj d) = Rejected
      (if \<not> truthy (dict_get d ''text'') \<and> \<not> truthy (dict_get d ''url'')
                    then ''Request must contain either 'text' or 'url' field''
                    else if truthy (dict_get d ''text'') \<and> truthy (dict_get d ''url'')
                    then ''Request must contain either 'text' or 'url', not both''
                    else if truthy (dict_get d ''url'') then ''Invalid URL format''
                    else ''Text content cannot be empty'')\<close>
    using validate_rejected [of d] by blast
  from a have j: "is_json req" and g: "get_json req = Inr (JObj d)"
    by simp_all
  show \<open>analyze s req =
        (\<lparr>payload = format_error_response ''validation_error''
                      (if truthy (dict_get d ''url'') \<and> \<not> truthy (dict_get d ''text'')
                       then ''INVALID_URL'' else ''INVALID_TEXT'')
                      (if \<not> truthy (dict_get d ''text'') \<and> \<not> truthy (dict_get d ''url'')
                    then ''Request must contain either 'text' or 'url' field''
                    else if truthy (dict_get d ''text'') \<and> truthy (dict_get d ''url'')
                    then ''Request must contain either 'text' or 'url', not both''
                    else if truthy (dict_get d ''url'') then ''Invalid URL format''
                    else ''Text content cannot be empty''),
          status_code = 400\<rparr>, [])\<close>
  proof (cases "truthy (dict_get d ''text'')")
    case True
    then show ?thesis
      using v j g
      by (cases "truthy (dict_get d ''url'')")
         (simp_all add: analyze_def text_in_both text_in_empty)
  next
    case False
    then show ?thesis
      using v j g
      by (cases "truthy (dict_get d ''url'')")
         (simp_all add: analyze_def text_in_neither text_not_in_url)
  qed
qed

theorem validate_text_input_one_truthy_field_witness:
  "\<not> accepts (dict_get [(''url'', JStr ''ftp://example.com'')] ''text'')
              (dict_get [(''url'', JStr ''ftp://example.com'')] ''url'') \<and>
   \<not> lone_non_string (dict_get [(''url'', JStr ''ftp://example.com'')] ''text'')
                      (dict_get [(''url'', JStr ''ftp://example.com'')] ''url'') \<and>
   is_json (json_request (JObj [(''url'', JStr ''ftp://example.com'')]) []) \<and>
   get_json (json_request (JObj [(''url'', JStr ''ftp://example.com'')]) []) =
     Inr (JObj [(''url'', JStr ''ftp://example.com'')]) \<and>
   analyze (failing_sdk ''unused'') (json_request (JObj [(''url'', JStr ''ftp://example.com'')]) []) =
     (\<lparr>payload = format_error_response ''validation_error'' ''INVALID_URL''
                   ''Invalid URL format'',
       status_code = 400\<rparr>, [])"
  using validate_text_input_one_truthy_field
    [of "[(''url'', JStr ''ftp://example.com'')]" "TextRequest []"
        "json_request (JObj [(''url'', JStr ''ftp://example.com'')]) []"
        "failing_sdk ''unused''"]
  by (simp add: accepts_def lone_non_string_def dict_get_def json_request_def)

text \<open>
  C1 as the specification words it fails on a body that has both keys, the text being
  empty: the code accepts the url, while the specification's condition asks for exactly one
  key and for a present text that is not blank.
\<close>

theorem both_fields_present_counterexample:
  "validate_text_input (JObj [(''text'', JStr []), (''url'', JStr ''https://example.com'')])
     = Accepted (UrlRequest ''https://example.com'') \<and>
   \<not> spec_valid_body [(''text'', JStr []), (''url'', JStr ''https://example.com'')]"
  by (simp add: validate_text_input_def dict_get_def spec_valid_body_def)

section \<open>Option mapping\<close>

lemma map_of_replace:
  "map_of (map (\<lambda>(a, b). if a = k then (a, v) else (a, b)) d) k' =
     (if k' = k then (if k \<in> fst ` set d then Some v else None) else map_of d k')"
  by (induction d) (force split: prod.splits)+

lemma map_of_dict_set:
  "map_of (dict_set d k v) k' = (if k' = k then Some v else map_of d k')"
proof (cases "k \<in> fst ` set d")
  case True
  then show ?thesis
    by (simp add: dict_set_def map_of_replace)
next
  case False
  then have "map_of d k = None"
    by (simp add: map_of_eq_None_iff)
  with False show ?thesis
    by (auto simp: dict_set_def map_add_def split: option.splits)
qed

lemma keys_dict_set: "set (map fst (dict_set d k v)) = insert k (set (map fst d))"
proof -
  have "k \<in> fst ` set d \<Longrightarrow> fst ` (\<lambda>(a, b). if a = k then (a, v) else (a, b)) ` set d = fst ` set d"
    by (force simp: image_iff split: prod.splits if_splits)
  then show ?thesis
    by (auto simp: dict_set_def)
qed

lemma map_of_boolean_feature:
  "map_of (boolean_feature q n opts) k =
     (if k = n \<and> map_of q n = Some ''true'' then Some (OBool True) else map_of opts k)"
  by (simp add: boolean_feature_def map_of_dict_set)

lemma keys_boolean_feature:
  "set (map fst (boolean_feature q n opts)) \<subseteq> insert n (set (map fst opts))"
  by (auto simp: boolean_feature_def keys_dict_set simp del: set_map)



lemma keys_boolean_features:
  assumes "boolean_features q opts = Accepted r"
  shows "set (map fst r) \<subseteq> set (map fst opts) \<union> {''topics'', ''sentiment'', ''intents''}"
proof
  fix k
  assume "k \<in> set (map fst r)"
  then have "map_of r k \<noteq> None"
    by (simp add: map_of_eq_None_iff)
  with assms have "map_of opts k \<noteq> None \<or> k \<in> {''topics'', ''sentiment'', ''intents''}"
    by (auto simp: boolean_features_def map_of_boolean_feature split: if_splits)
  then show "k \<in> set (map fst opts) \<union> {''topics'', ''sentiment'', ''intents''}"
    by (auto simp: map_of_eq_None_iff)
qed

lemma map_of_boolean_features:
  assumes "boolean_features q opts = Accepted r"
  shows "map_of r k =
     (if k \<in> {''topics'', ''sentiment'', ''intents''} \<and> map_of q k = Some ''true''
      then Some (OBool True) else map_of opts k)"
  using assms by (auto simp: boolean_features_def map_of_boolean_feature)



lemma subset_five:
  assumes "A \<subseteq> B \<union> {t, s, i}" and "B \<subseteq> {l, u}"
  shows "A \<subseteq> {l, u, t, s, i}"
  using assms by blast

lemma keys_bound:
  assumes "boolean_features q opts = Accepted r"
    and "set (map fst opts) \<subseteq> {''language'', ''summarize''}"
  shows "set (map fst r) \<subseteq>
     {''language'', ''summarize'', ''topics'', ''sentiment'', ''intents''}"
  by (rule subset_five [OF keys_boolean_features [OF assms(1)] assms(2)])

lemma keys_language:
  "set (map fst [(''language'', v :: option_value)]) \<subseteq> {''language'', ''summarize''}"
  by simp

lemma keys_summarize:
  "set (map fst (dict_set [(''language'', v :: option_value)] ''summarize'' w)) \<subseteq>
     {''language'', ''summarize''}"
  by (simp add: dict_set_def)

lemma features_total: "\<exists>r. boolean_features q opts = Accepted r"
  by (simp add: boolean_features_def)

lemma build_deepgram_options_property:
  "case build_deepgram_options q of
      Rejected m \<Rightarrow>
        map_of q ''summarize'' = Some ''v1'' \<and>
        m = ''Summarization v1 is no longer supported. Please use v2 or true.''
    | Accepted opts \<Rightarrow>
        map_of q ''summarize'' \<noteq> Some ''v1'' \<and>
        map_of opts ''language'' =
          Some (OStr (case map_of q ''language'' of None \<Rightarrow> ''en'' | Some l \<Rightarrow> l)) \<and>
        map_of opts ''summarize'' =
          (if map_of q ''summarize'' = Some ''true'' then Some (OBool True)
           else if map_of q ''summarize'' = Some ''v2'' then Some (OStr ''v2'')
           else None) \<and>
        map_of opts ''topics'' =
          (if map_of q ''topics'' = Some ''true'' then Some (OBool True) else None) \<and>
        map_of opts ''sentiment'' =
          (if map_of q ''sentiment'' = Some ''true'' then Some (OBool True) else None) \<and>
        map_of opts ''intents'' =
          (if map_of q ''intents'' = Some ''true'' then Some (OBool True) else None) \<and>
        set (map fst opts) \<subseteq>
          {''language'', ''summarize'', ''topics'', ''sentiment'', ''intents''}
    | Raised e \<Rightarrow> False"
proof -
  let ?lang = "[(''language'',
                 OStr (case map_of q ''language'' of None \<Rightarrow> ''en'' | Some l \<Rightarrow> l))]"
  show ?thesis
  proof (cases "map_of q ''summarize'' = Some ''true''")
    case True
    obtain r where r: "boolean_features q (dict_set ?lang ''summarize'' (OBool True)) = Accepted r"
      using features_total by blast
    from True r have b: "build_deepgram_options q = Accepted r"
      by (simp add: build_deepgram_options_def)
    from True show ?thesis
      using keys_bound [OF r keys_summarize]
      by (simp add: b map_of_boolean_features [OF r] map_of_dict_set del: set_map)
  next
    case nt: False
    show ?thesis
    proof (cases "map_of q ''summarize'' = Some ''v2''")
      case True
      obtain r where r: "boolean_features q (dict_set ?lang ''summarize'' (OStr ''v2'')) = Accepted r"
        using features_total by blast
      from True r have b: "build_deepgram_options q = Accepted r"
        by (simp add: build_deepgram_options_def)
      from True show ?thesis
        using keys_bound [OF r keys_summarize]
        by (simp add: b map_of_boolean_features [OF r] map_of_dict_set del: set_map)
    next
      case n2: False
      show ?thesis
      proof (cases "map_of q ''summarize'' = Some ''v1''")
        case True
        then show ?thesis
          by (simp add: build_deepgram_options_def)
      next
        case n1: False
        obtain r where r: "boolean_features q ?lang = Accepted r"
          using features_total by blast
        from nt n2 n1 r have b: "build_deepgram_options q = Accepted r"
          by (simp add: build_deepgram_options_def)
        from nt n2 n1 show ?thesis
          using keys_bound [OF r keys_language]
          by (simp add: b map_of_boolean_features [OF r] del: set_map)
      qed
    qed
  qed
qed

text \<open>
  C2. The option mapper rejects \<^verbatim>\<open>summarize=v1\<close> with its fixed message and accepts every
  other query. The options it then returns hold \<^verbatim>\<open>language\<close> (\<^verbatim>\<open>en\<close> when the query has
  none), \<^verbatim>\<open>summarize\<close> as \<^verbatim>\<open>True\<close> for \<^verbatim>\<open>true\<close>, as \<^verbatim>\<open>v2\<close> for \<^verbatim>\<open>v2\<close> and not at all
  otherwise, each of \<^verbatim>\<open>topics\<close>, \<^verbatim>\<open>sentiment\<close> and \<^verbatim>\<open>intents\<close> as \<^verbatim>\<open>True\<close> exactly when
  its query value is \<^verbatim>\<open>true\<close>, and no other key. With an empty query the options are
  exactly \<^verbatim>\<open>{language: en}\<close>, and that is what the remote call of a valid request is given.
\<close>

theorem build_deepgram_options_mapping:
  "(case build_deepgram_options q of
      Rejected m \<Rightarrow>
        map_of q ''summarize'' = Some ''v1'' \<and>
        m = ''Summarization v1 is no longer supported. Please use v2 or true.''
    | Accepted opts \<Rightarrow>
        map_of q ''summarize'' \<noteq> Some ''v1'' \<and>
        map_of opts ''language'' =
          Some (OStr (case map_of q ''language'' of None \<Rightarrow> ''en'' | Some l \<Rightarrow> l)) \<and>
        map_of opts ''summarize'' =
          (if map_of q ''summarize'' = Some ''true'' then Some (OBool True)
           else if map_of q ''summarize'' = Some ''v2'' then Some (OStr ''v2'')
           else None) \<and>
        map_of opts ''topics'' =
          (if map_of q ''topics'' = Some ''true'' then Some (OBool True) else None) \<and>
        map_of opts ''sentiment'' =
          (if map_of q ''sentiment'' = Some ''true'' then Some (OBool True) else None) \<and>
        map_of opts ''intents'' =
          (if map_of q ''intents'' = Some ''true'' then Some (OBool True) else None) \<and>
        set (map fst opts) \<subseteq>
          {''language'', ''summarize'', ''topics'', ''sentiment'', ''intents''}
    | Raised e \<Rightarrow> False) \<and>
   build_deepgram_options [] = Accepted [(''language'', OStr ''en'')] \<and>
   (is_json req \<and> get_json req = Inr body \<and> validate_text_input body = Accepted rd \<and>
    args req = [] \<longrightarrow>
      snd (analyze s req) = [(rd, [(''language'', OStr ''en'')])])"
proof (intro conjI impI)
  show "case build_deepgram_options q of
      Rejected m \<Rightarrow>
        map_of q ''summarize'' = Some ''v1'' \<and>
        m = ''Summarization v1 is no longer supported. Please use v2 or true.''
    | Accepted opts \<Rightarrow>
        map_of q ''summarize'' \<noteq> Some ''v1'' \<and>
        map_of opts ''language'' =
          Some (OStr (case map_of q ''language'' of None \<Rightarrow> ''en'' | Some l \<Rightarrow> l)) \<and>
        map_of opts ''summarize'' =
          (if map_of q ''summarize'' = Some ''true'' then Some (OBool True)
           else if map_of q ''summarize'' = Some ''v2'' then Some (OStr ''v2'')
           else None) \<and>
        map_of opts ''topics'' =
          (if map_of q ''topics'' = Some ''true'' then Some (OBool True) else None) \<and>
        map_of opts ''sentiment'' =
          (if map_of q ''sentiment'' = Some ''true'' then Some (OBool True) else None) \<and>
        map_of opts ''intents'' =
          (if map_of q ''intents'' = Some ''true'' then Some (OBool True) else None) \<and>
        set (map fst opts) \<subseteq>
          {''language'', ''summarize'', ''topics'', ''sentiment'', ''intents''}
    | Raised e \<Rightarrow> False"
    by (rule build_deepgram_options_property)
next
  show b: "build_deepgram_options [] = Accepted [(''language'', OStr ''en'')]"
    by (simp add: build_deepgram_options_def boolean_features_def boolean_feature_def)
  assume "is_json req \<and> get_json req = Inr body \<and> validate_text_input body = Accepted rd \<and>
    args req = []"
  with b show "snd (analyze s req) = [(rd, [(''language'', OStr ''en'')])]"
    by (simp add: analyze_def split: sum.splits)
qed

lemma validate_hello_world:
  "validate_text_input (JObj [(''text'', JStr ''hello world'')]) =
     Accepted (TextRequest ''hello world'')"
  by (simp add: validate_text_input_def dict_get_def strip_def lstrip.simps
      leading_space_def whitespace_def)

theorem build_deepgram_options_mapping_witness:
  "is_json (json_request (JObj [(''text'', JStr ''hello world'')]) []) \<and>
   get_json (json_request (JObj [(''text'', JStr ''hello world'')]) []) =
     Inr (JObj [(''text'', JStr ''hello world'')]) \<and>
   validate_text_input (JObj [(''text'', JStr ''hello world'')]) =
     Accepted (TextRequest ''hello world'') \<and>
   args (json_request (JObj [(''text'', JStr ''hello world'')]) []) = [] \<and>
   snd (analyze (answering_sdk (JObj []))
          (json_request (JObj [(''text'', JStr ''hello world'')]) [])) =
     [(TextRequest ''hello world'', [(''language'', OStr ''en'')])]"
  using validate_hello_world build_deepgram_options_mapping
      [of "[]" "json_request (JObj [(''text'', JStr ''hello world'')]) []"
          "JObj [(''text'', JStr ''hello world'')]" "TextRequest ''hello world''"
          "answering_sdk (JObj [])"]
  by (simp add: json_request_def)

section \<open>Faults of the remote call\<close>

lemma analyze_remote_fault:
  assumes "is_json req" and "get_json req = Inr body"
    and "validate_text_input body = Accepted rd"
    and "build_deepgram_options (args req) = Accepted opts"
    and "text_analyze s rd opts = Inl m"
  shows "analyze s req = (analyze_except m, [(rd, opts)])"
  using assms by (simp add: analyze_def)

lemma validate_hello:
  "validate_text_input (JObj [(''text'', JStr ''hello'')]) = Accepted (TextRequest ''hello'')"
  by (simp add: validate_text_input_def dict_get_def strip_def lstrip.simps
      leading_space_def whitespace_def)

lemma build_no_query: "build_deepgram_options [] = Accepted [(''language'', OStr ''en'')]"
  by (simp add: build_deepgram_options_def boolean_features_def boolean_feature_def)

lemma sample_fault:
  "is_json (json_request (JObj [(''text'', JStr ''hello'')]) []) \<and>
   get_json (json_request (JObj [(''text'', JStr ''hello'')]) []) =
     Inr (JObj [(''text'', JStr ''hello'')]) \<and>
   validate_text_input (JObj [(''text'', JStr ''hello'')]) = Accepted (TextRequest ''hello'') \<and>
   build_deepgram_options (args (json_request (JObj [(''text'', JStr ''hello'')]) [])) =
     Accepted [(''language'', OStr ''en'')] \<and>
   text_analyze (failing_sdk m) (TextRequest ''hello'') [(''language'', OStr ''en'')] = Inl m"
  by (simp add: json_request_def failing_sdk_def validate_hello build_no_query)

lemma too_long_lower:
  assumes "sublist ''too long'' m"
  shows "sublist ''too long'' (lower m)"
  using sublist_lower [OF assms] by (simp only: lower_too_long)

text \<open>
  C3, as amended. A fault of the remote call whose message contains \<^verbatim>\<open>too long\<close> is answered
  with status 400 and the fault's own message. The code is \<^verbatim>\<open>TEXT_TOO_LONG\<close> when the
  lowercased message contains neither \<^verbatim>\<open>text\<close> nor \<^verbatim>\<open>url\<close>; a message that contains
  \<^verbatim>\<open>text\<close> gets \<^verbatim>\<open>INVALID_TEXT\<close>, and one that contains \<^verbatim>\<open>url\<close> but not \<^verbatim>\<open>text\<close> gets
  \<^verbatim>\<open>INVALID_URL\<close>.
\<close>

theorem too_long_fault_response:
  assumes "is_json req" and "get_json req = Inr body"
    and "validate_text_input body = Accepted rd"
    and "build_deepgram_options (args req) = Accepted opts"
    and "text_analyze s rd opts = Inl m"
    and "sublist ''too long'' m"
  shows "fst (analyze s req) =
     \<lparr>payload = format_error_response ''processing_error''
                  (if sublist ''text'' (lower m) then ''INVALID_TEXT''
                   else if sublist ''url'' (lower m) then ''INVALID_URL''
                   else ''TEXT_TOO_LONG'') m,
      status_code = 400\<rparr>"
  using too_long_lower [OF assms(6)]
  by (simp add: analyze_remote_fault [OF assms(1-5)] analyze_except_def)

lemma too_long_sample:
  "sublist ''too long'' ''Input is too long'' \<and>
   \<not> sublist ''text'' (lower ''Input is too long'') \<and>
   \<not> sublist ''url'' (lower ''Input is too long'')"
  by (simp add: lower_def lower_char_def sublist_Cons_right)

theorem too_long_fault_response_witness:
  "is_json (json_request (JObj [(''text'', JStr ''hello'')]) []) \<and>
   get_json (json_request (JObj [(''text'', JStr ''hello'')]) []) =
     Inr (JObj [(''text'', JStr ''hello'')]) \<and>
   validate_text_input (JObj [(''text'', JStr ''hello'')]) = Accepted (TextRequest ''hello'') \<and>
   build_deepgram_options (args (json_request (JObj [(''text'', JStr ''hello'')]) [])) =
     Accepted [(''language'', OStr ''en'')] \<and>
   text_analyze (failing_sdk ''Input is too long'') (TextRequest ''hello'')
     [(''language'', OStr ''en'')] = Inl ''Input is too long'' \<and>
   sublist ''too long'' ''Input is too long'' \<and>
   fst (analyze (failing_sdk ''Input is too long'')
          (json_request (JObj [(''text'', JStr ''hello'')]) [])) =
     \<lparr>payload = format_error_response ''processing_error'' ''TEXT_TOO_LONG''
                  ''Input is too long'',
      status_code = 400\<rparr>"
proof -
  note f = sample_fault [of "''Input is too long''"]
  from f have 1: "is_json (json_request (JObj [(''text'', JStr ''hello'')]) [])"
    and 2: "get_json (json_request (JObj [(''text'', JStr ''hello'')]) []) =
      Inr (JObj [(''text'', JStr ''hello'')])"
    and 3: "validate_text_input (JObj [(''text'', JStr ''hello'')]) =
      Accepted (TextRequest ''hello'')"
    and 4: "build_deepgram_options (args (json_request (JObj [(''text'', JStr ''hello'')]) [])) =
      Accepted [(''language'', OStr ''en'')]"
    and 5: "text_analyze (failing_sdk ''Input is too long'') (TextRequest ''hello'')
      [(''language'', OStr ''en'')] = Inl ''Input is too long''"
    by simp_all
  from too_long_sample have 6: "sublist ''too long'' ''Input is too long''"
    by simp
  show ?thesis
    using too_long_fault_response [OF 1 2 3 4 5 6] too_long_sample 1 2 3 4 5
    by simp
qed

lemma text_too_long_sample:
  "sublist ''too long'' ''Text is too long'' \<and> sublist ''text'' (lower ''Text is too long'')"
  by (simp add: lower_def lower_char_def sublist_Cons_right)

text \<open>
  C3 as the specification words it fails for a message that also contains \<^verbatim>\<open>text\<close>: the
  classifier tests \<^verbatim>\<open>text\<close> first and answers \<^verbatim>\<open>INVALID_TEXT\<close>.
\<close>

theorem too_long_with_text_counterexample:
  "sublist ''too long'' ''Text is too long'' \<and>
   analyze (failing_sdk ''Text is too long'')
     (json_request (JObj [(''text'', JStr ''hello'')]) []) =
     (\<lparr>payload = format_error_response ''processing_error'' ''INVALID_TEXT''
                   ''Text is too long'',
       status_code = 400\<rparr>,
      [(TextRequest ''hello'', [(''language'', OStr ''en'')])])"
  using sample_fault [of "''Text is too long''"] text_too_long_sample
  by (simp add: analyze_remote_fault [of _ _ _ _ "failing_sdk ''Text is too long''"]
      analyze_except_def)

text \<open>
  C4, as amended. A fault of the remote call whose lowercased message contains none of
  \<^verbatim>\<open>text\<close>, \<^verbatim>\<open>url\<close> and \<^verbatim>\<open>too long\<close> is answered with status 500, a
  \<^verbatim>\<open>processing_error\<close> envelope with the default code \<^verbatim>\<open>INVALID_TEXT\<close> and the message
  \<^verbatim>\<open>Text processing failed\<close> in place of the fault's own. Every other fault is answered with
  status 400 and the fault's own message.
\<close>

theorem unclassified_fault_response:
  assumes "is_json req" and "get_json req = Inr body"
    and "validate_text_input body = Accepted rd"
    and "build_deepgram_options (args req) = Accepted opts"
    and "text_analyze s rd opts = Inl m"
  shows "if \<not> sublist ''text'' (lower m) \<and> \<not> sublist ''url'' (lower m) \<and>
            \<not> sublist ''too long'' (lower m)
         then fst (analyze s req) =
                \<lparr>payload = format_error_response ''processing_error'' ''INVALID_TEXT''
                             ''Text processing failed'',
                 status_code = 500\<rparr>
         else status_code (fst (analyze s req)) = 400 \<and>
              error_part (payload (fst (analyze s req))) ''type'' =
                Some (JStr ''processing_error'') \<and>
              error_part (payload (fst (analyze s req))) ''message'' = Some (JStr m)"
  by (simp add: analyze_remote_fault [OF assms] analyze_except_def
      format_error_response_def error_part_def json_field_def)

lemma unrelated_sample:
  "\<not> sublist ''text'' (lower ''Connection refused'') \<and>
   \<not> sublist ''url'' (lower ''Connection refused'') \<and>
   \<not> sublist ''too long'' (lower ''Connection refused'')"
  by (simp add: lower_def lower_char_def sublist_Cons_right)

theorem unclassified_fault_response_witness:
  "is_json (json_request (JObj [(''text'', JStr ''hello'')]) []) \<and>
   get_json (json_request (JObj [(''text'', JStr ''hello'')]) []) =
     Inr (JObj [(''text'', JStr ''hello'')]) \<and>
   validate_text_input (JObj [(''text'', JStr ''hello'')]) = Accepted (TextRequest ''hello'') \<and>
   build_deepgram_options (args (json_request (JObj [(''text'', JStr ''hello'')]) [])) =
     Accepted [(''language'', OStr ''en'')] \<and>
   text_analyze (failing_sdk ''Connection refused'') (TextRequest ''hello'')
     [(''language'', OStr ''en'')] = Inl ''Connection refused'' \<and>
   \<not> sublist ''text'' (lower ''Connection refused'') \<and>
   \<not> sublist ''url'' (lower ''Connection refused'') \<and>
   \<not> sublist ''too long'' (lower ''Connection refused'') \<and>
   fst (analyze (failing_sdk ''Connection refused'')
          (json_request (JObj [(''text'', JStr ''hello'')]) [])) =
     \<lparr>payload = format_error_response ''processing_error'' ''INVALID_TEXT''
                  ''Text processing failed'',
      status_code = 500\<rparr>"
proof -
  note f = sample_fault [of "''Connection refused''"]
  from f have 1: "is_json (json_request (JObj [(''text'', JStr ''hello'')]) [])"
    and 2: "get_json (json_request (JObj [(''text'', JStr ''hello'')]) []) =
      Inr (JObj [(''text'', JStr ''hello'')])"
    and 3: "validate_text_input (JObj [(''text'', JStr ''hello'')]) =
      Accepted (TextRequest ''hello'')"
    and 4: "build_deepgram_options (args (json_request (JObj [(''text'', JStr ''hello'')]) [])) =
      Accepted [(''language'', OStr ''en'')]"
    and 5: "text_analyze (failing_sdk ''Connection refused'') (TextRequest ''hello'')
      [(''language'', OStr ''en'')] = Inl ''Connection refused''"
    by simp_all
  show ?thesis
    using unclassified_fault_response [OF 1 2 3 4 5] unrelated_sample 1 2 3 4 5
    by simp
qed

lemma capital_url_sample:
  "\<not> sublist ''text'' ''Invalid URL'' \<and> \<not> sublist ''url'' ''Invalid URL'' \<and>
   \<not> sublist ''too long'' ''Invalid URL'' \<and>
   \<not> sublist ''text'' (lower ''Invalid URL'') \<and> sublist ''url'' (lower ''Invalid URL'')"
  by (simp add: lower_def lower_char_def sublist_Cons_right)

text \<open>
  C4 as the specification words it fails for a message that contains none of the three
  substrings as written but one of them in other letter case: the classifier looks at the
  lowercased message.
\<close>

theorem capital_url_fault_counterexample:
  "\<not> sublist ''text'' ''Invalid URL'' \<and> \<not> sublist ''url'' ''Invalid URL'' \<and>
   \<not> sublist ''too long'' ''Invalid URL'' \<and>
   analyze (failing_sdk ''Invalid URL'')
     (json_request (JObj [(''text'', JStr ''hello'')]) []) =
     (\<lparr>payload = format_error_response ''processing_error'' ''INVALID_URL'' ''Invalid URL'',
       status_code = 400\<rparr>,
      [(TextRequest ''hello'', [(''language'', OStr ''en'')])])"
  using sample_fault [of "''Invalid URL''"] capital_url_sample
  by (simp add: analyze_remote_fault [of _ _ _ _ "failing_sdk ''Invalid URL''"]
      analyze_except_def)

text \<open>
  C9. The classifier looks at the lowercased message of the fault and takes the first of
  \<^verbatim>\<open>text\<close>, \<^verbatim>\<open>url\<close>, \<^verbatim>\<open>too long\<close> that occurs in it: \<^verbatim>\<open>text\<close> gives \<^verbatim>\<open>INVALID_TEXT\<close>
  whatever else occurs, \<^verbatim>\<open>url\<close> without \<^verbatim>\<open>text\<close> gives \<^verbatim>\<open>INVALID_URL\<close> whether or not
  \<^verbatim>\<open>too long\<close> occurs, both with status 400.
\<close>

theorem fault_classifier_order:
  assumes "is_json req" and "get_json req = Inr body"
    and "validate_text_input body = Accepted rd"
    and "build_deepgram_options (args req) = Accepted opts"
    and "text_analyze s rd opts = Inl m"
  shows "fst (analyze s req) =
     (if sublist ''text'' (lower m) then
        \<lparr>payload = format_error_response ''processing_error'' ''INVALID_TEXT'' m,
         status_code = 400\<rparr>
      else if sublist ''url'' (lower m) then
        \<lparr>payload = format_error_response ''processing_error'' ''INVALID_URL'' m,
         status_code = 400\<rparr>
      else if sublist ''too long'' (lower m) then
        \<lparr>payload = format_error_response ''processing_error'' ''TEXT_TOO_LONG'' m,
         status_code = 400\<rparr>
      else
        \<lparr>payload = format_error_response ''processing_error'' ''INVALID_TEXT''
                     ''Text processing failed'',
         status_code = 500\<rparr>)"
  by (simp add: analyze_remote_fault [OF assms] analyze_except_def)

lemma all_three_sample:
  "sublist ''text'' (lower ''URL of the TEXT is too long'') \<and>
   sublist ''url'' (lower ''URL of the TEXT is too long'') \<and>
   sublist ''too long'' (lower ''URL of the TEXT is too long'')"
  by (simp add: lower_def lower_char_def sublist_Cons_right)

theorem fault_classifier_order_witness:
  "is_json (json_request (JObj [(''text'', JStr ''hello'')]) []) \<and>
   get_json (json_request (JObj [(''text'', JStr ''hello'')]) []) =
     Inr (JObj [(''text'', JStr ''hello'')]) \<and>
   validate_text_input (JObj [(''text'', JStr ''hello'')]) = Accepted (TextRequest ''hello'') \<and>
   build_deepgram_options (args (json_request (JObj [(''text'', JStr ''hello'')]) [])) =
     Accepted [(''language'', OStr ''en'')] \<and>
   text_analyze (failing_sdk ''URL of the TEXT is too long'') (TextRequest ''hello'')
     [(''language'', OStr ''en'')] = Inl ''URL of the TEXT is too long'' \<and>
   sublist ''text'' (lower ''URL of the TEXT is too long'') \<and>
   sublist ''url'' (lower ''URL of the TEXT is too long'') \<and>
   sublist ''too long'' (lower ''URL of the TEXT is too long'') \<and>
   fst (analyze (failing_sdk ''URL of the TEXT is too long'')
          (json_request (JObj [(''text'', JStr ''hello'')]) [])) =
     \<lparr>payload = format_error_response ''processing_error'' ''INVALID_TEXT''
                  ''URL of the TEXT is too long'',
      status_code = 400\<rparr>"
proof -
  note f = sample_fault [of "''URL of the TEXT is too long''"]
  from f have 1: "is_json (json_request (JObj [(''text'', JStr ''hello'')]) [])"
    and 2: "get_json (json_request (JObj [(''text'', JStr ''hello'')]) []) =
      Inr (JObj [(''text'', JStr ''hello'')])"
    and 3: "validate_text_input (JObj [(''text'', JStr ''hello'')]) =
      Accepted (TextRequest ''hello'')"
    and 4: "build_deepgram_options (args (json_request (JObj [(''text'', JStr ''hello'')]) [])) =
      Accepted [(''language'', OStr ''en'')]"
    and 5: "text_analyze (failing_sdk ''URL of the TEXT is too long'') (TextRequest ''hello'')
      [(''language'', OStr ''en'')] = Inl ''URL of the TEXT is too long''"
    by simp_all
  show ?thesis
    using fault_classifier_order [OF 1 2 3 4 5] all_three_sample 1 2 3 4 5
    by simp
qed

section \<open>Failures found before the remote call\<close>

lemma remote_called_only_after_acceptance:
  assumes "snd (analyze s req) \<noteq> []"
  shows "is_json req \<and>
    (\<exists>body rd opts. get_json req = Inr body \<and> validate_text_input body = Accepted rd \<and>
       build_deepgram_options (args req) = Accepted opts \<and>
       snd (analyze s req) = [(rd, opts)])"
  using assms
  by (auto simp: analyze_def split: if_splits sum.splits outcome.splits)










section \<open>Error envelopes\<close>

lemma analyze_except_envelope:
  "\<exists>c m. payload (analyze_except e) = format_error_response ''processing_error'' c m"
  by (simp add: analyze_except_def) blast

text \<open>
  C10. The envelope that \<^verbatim>\<open>format_error_response\<close> builds has the single key
  \<^verbatim>\<open>error\<close>, under it exactly the fields \<^verbatim>\<open>type\<close>, \<^verbatim>\<open>code\<close>, \<^verbatim>\<open>message\<close> and \<^verbatim>\<open>details\<close>, and
  \<^verbatim>\<open>details\<close> is the empty object. Every answer of the analyze endpoint with a status other
  than 200 is such an envelope, of type \<^verbatim>\<open>validation_error\<close> or \<^verbatim>\<open>processing_error\<close>.
\<close>

theorem error_envelope_shape:
  "(\<exists>fields. format_error_response t c m = JObj [(''error'', JObj fields)] \<and>
      map fst fields = [''type'', ''code'', ''message'', ''details''] \<and>
      map_of fields ''type'' = Some (JStr t) \<and>
      map_of fields ''code'' = Some (JStr c) \<and>
      map_of fields ''message'' = Some (JStr m) \<and>
      map_of fields ''details'' = Some (JObj [])) \<and>
   (status_code (fst (analyze s req)) = 200 \<or>
    (\<exists>c' m'. payload (fst (analyze s req)) =
               format_error_response ''validation_error'' c' m' \<or>
             payload (fst (analyze s req)) =
               format_error_response ''processing_error'' c' m'))"
proof
  show "\<exists>fields. format_error_response t c m = JObj [(''error'', JObj fields)] \<and>
      map fst fields = [''type'', ''code'', ''message'', ''details''] \<and>
      map_of fields ''type'' = Some (JStr t) \<and>
      map_of fields ''code'' = Some (JStr c) \<and>
      map_of fields ''message'' = Some (JStr m) \<and>
      map_of fields ''details'' = Some (JObj [])"
    by (simp add: format_error_response_def)
next
  let ?r = "fst (analyze s req)"
  let ?P = "\<lambda>r. status_code r = 200 \<or>
    (\<exists>c' m'. payload r = format_error_response ''validation_error'' c' m' \<or>
             payload r = format_error_response ''processing_error'' c' m')"
  have ex: "?P (analyze_except e)" for e
    using analyze_except_envelope [of e] by blast
  have val: "?P \<lparr>payload = format_error_response ''validation_error'' c' m', status_code = n\<rparr>"
    for c' m' n
    by (rule disjI2) (simp, blast)
  have ok: "?P \<lparr>payload = j, status_code = 200\<rparr>" for j
    by simp
  show "?P ?r"
    unfolding analyze_def
    by (simp only: ex val ok fst_conv split: if_split sum.split outcome.split) simp
qed

section \<open>The metadata route\<close>

text \<open>
  C6. When \<^verbatim>\<open>deepgram.toml\<close> is read and has a \<^verbatim>\<open>meta\<close> entry, \<^verbatim>\<open>GET /api/metadata\<close> answers
  with that entry and status 200. When the file is read and has no \<^verbatim>\<open>meta\<close> entry, when it is
  missing, and when reading it fails otherwise, the answer has status 500 and
  \<^verbatim>\<open>INTERNAL_SERVER_ERROR\<close> in its \<^verbatim>\<open>error\<close> field.
\<close>

theorem get_metadata_outcomes:
  "(case map_of config ''meta'' of
      Some meta \<Rightarrow> get_metadata (Loaded config) = \<lparr>payload = meta, status_code = 200\<rparr>
    | None \<Rightarrow>
        status_code (get_metadata (Loaded config)) = 500 \<and>
        json_field (payload (get_metadata (Loaded config))) ''error'' =
          Some (JStr ''INTERNAL_SERVER_ERROR'')) \<and>
   status_code (get_metadata FileNotFound) = 500 \<and>
   json_field (payload (get_metadata FileNotFound)) ''error'' =
     Some (JStr ''INTERNAL_SERVER_ERROR'') \<and>
   status_code (get_metadata (LoadFailed e)) = 500 \<and>
   json_field (payload (get_metadata (LoadFailed e))) ''error'' =
     Some (JStr ''INTERNAL_SERVER_ERROR'')"
  by (simp add: get_metadata_def metadata_error_def json_field_def split: option.split)

section \<open>The health route\<close>

text \<open>
  C7. \<^verbatim>\<open>GET /health\<close> answers status 200 with exactly the object
  \<^verbatim>\<open>{"status": "ok", "service": "text-intelligence"}\<close>, whatever the state \<open>w\<close> is.
\<close>

theorem health_constant:
  "health w =
     \<lparr>payload = JObj [(''status'', JStr ''ok''), (''service'', JStr ''text-intelligence'')],
      status_code = 200\<rparr>"
  by (simp add: health_def)

end
